theory Spec2Isabelle
  imports Complex_Main
begin

section \<open>Python values used by the recognition service\<close>

text \<open>
  The service of \<^verbatim>\<open>verify/face_recognition_service.py\<close> is embedded function by
  function. Python floats are modelled as reals, \<^verbatim>\<open>0.0\<close> as \<open>0\<close>. An exception is
  a value carrying the text that \<^verbatim>\<open>str(e)\<close> yields; a computation that may raise
  returns \<open>exn + 'a\<close> with \<open>Inl\<close> for the raised exception. The module logger is a list
  of records: every function returns the records it emitted, in order, beside its result.
\<close>

datatype exn = Exception (str: string)

datatype level = INFO | WARNING | ERROR

type_synonym log_record = "level \<times> string"

text \<open>A face location is the tuple (top, right, bottom, left).\<close>

type_synonym location = "int \<times> int \<times> int \<times> int"

text \<open>
  An image argument is either an \<^verbatim>\<open>InMemoryUploadedFile\<close>, whose \<^verbatim>\<open>read()\<close> gives
  its bytes, or anything else, which the service hands to the library as a file path.
\<close>

datatype image_file = InMemoryUploadedFile string | FilePath string

subsection \<open>The imported libraries\<close>

text \<open>
  PIL, numpy and \<^verbatim>\<open>face_recognition\<close> are third-party modules, not code of the
  repository; the service is parametrised by them. \<open>'p\<close> is a PIL image, \<open>'a\<close> a pixel
  array, \<open>'e\<close> a face encoding. The flag is the module constant set by the import
  attempt at the top of the file; when the import failed, \<^verbatim>\<open>face_recognition\<close> and
  \<^verbatim>\<open>np\<close> are \<^verbatim>\<open>None\<close>.
\<close>

record ('p, 'a, 'e) libs =
  FACE_RECOGNITION_AVAILABLE :: bool
  Image_open :: "string \<Rightarrow> exn + 'p"
  image_mode :: "'p \<Rightarrow> string"
  image_convert :: "'p \<Rightarrow> string \<Rightarrow> exn + 'p"
  np_array :: "'p \<Rightarrow> exn + 'a"
  load_image_file :: "string \<Rightarrow> exn + 'a"
  face_locations :: "'a \<Rightarrow> string \<Rightarrow> exn + location list"
  face_encodings :: "'a \<Rightarrow> location list \<Rightarrow> string \<Rightarrow> exn + 'e list"
  face_distance :: "'e list \<Rightarrow> 'e \<Rightarrow> exn + real list"
  format_3f :: "real \<Rightarrow> string"

text \<open>Attribute access on \<^verbatim>\<open>None\<close> raises an AttributeError with this text.\<close>

definition NoneType_attribute_error :: "string \<Rightarrow> exn" where
  "NoneType_attribute_error name =
     Exception ([CHR 0x27] @ ''NoneType'' @ [CHR 0x27] @ '' object has no attribute ''
                @ [CHR 0x27] @ name @ [CHR 0x27])"

text \<open>Decimal rendering of a length inside an f-string.\<close>

definition digit_char :: "nat \<Rightarrow> char" where
  "digit_char d = ''0123456789'' ! d"

fun str_nat :: "nat \<Rightarrow> string" where
  "str_nat n = (if n < 10 then [digit_char n]
                else str_nat (n div 10) @ [digit_char (n mod 10)])"

declare str_nat.simps [simp del]

definition str_bool :: "bool \<Rightarrow> string" where
  "str_bool b = (if b then ''True'' else ''False'')"

subsection \<open>The service object\<close>

text \<open>
  \<^verbatim>\<open>RECOGNITION_THRESHOLD\<close> is a class attribute read through \<^verbatim>\<open>self\<close>;
  \<^verbatim>\<open>encoding_model\<close> is set by the constructor from the Django settings, where the
  attribute \<^verbatim>\<open>FACE_RECOGNITION_MODEL\<close> may be absent.
\<close>

record service =
  RECOGNITION_THRESHOLD :: real
  encoding_model :: string

definition FaceRecognitionService :: "string option \<Rightarrow> service" where
  "FaceRecognitionService settings_model =
     \<lparr> RECOGNITION_THRESHOLD = 6 / 10,
       encoding_model = (case settings_model of None \<Rightarrow> ''large'' | Some m \<Rightarrow> m) \<rparr>"

section \<open>extract_face_encoding\<close>

text \<open>The image loading at the head of the try block.\<close>

definition load_image :: "('p, 'a, 'e) libs \<Rightarrow> image_file \<Rightarrow> exn + 'a" where
  "load_image L image_file =
     (case image_file of
        InMemoryUploadedFile image_data \<Rightarrow>
          (case Image_open L image_data of
             Inl e \<Rightarrow> Inl e
           | Inr img \<Rightarrow>
               (case (if image_mode L img = ''RGBA'' then image_convert L img ''RGB''
                      else Inr img) of
                  Inl e \<Rightarrow> Inl e
                | Inr img' \<Rightarrow> np_array L img'))
      | FilePath p \<Rightarrow> load_image_file L p)"

text \<open>
  The body of the try block: the result is what the body returns or the exception that
  leaves it, with the records logged until then.
\<close>

definition extract_face_encoding_try ::
  "('p, 'a, 'e) libs \<Rightarrow> service \<Rightarrow> image_file
     \<Rightarrow> (exn + ('e option \<times> string)) \<times> log_record list" where
  "extract_face_encoding_try L self image_file =
     (case load_image L image_file of
        Inl e \<Rightarrow> (Inl e, [])
      | Inr image_array \<Rightarrow>
          (case face_locations L image_array (encoding_model self) of
             Inl e \<Rightarrow> (Inl e, [])
           | Inr locs \<Rightarrow>
               if locs = [] then (Inr (None, ''No face detected in the image''), [])
               else
                 let logged =
                       (if length locs > 1
                        then [(WARNING, ''Multiple faces detected ('' @ str_nat (length locs)
                                         @ ''), using the first one'')]
                        else [])
                 in (case face_encodings L image_array locs (encoding_model self) of
                       Inl e \<Rightarrow> (Inl e, logged)
                     | Inr encs \<Rightarrow>
                         (case encs of
                            [] \<Rightarrow> (Inr (None, ''Could not generate face encoding''), logged)
                          | enc # _ \<Rightarrow> (Inr (Some enc, []), logged)))))"

definition extract_face_encoding ::
  "('p, 'a, 'e) libs \<Rightarrow> service \<Rightarrow> image_file
     \<Rightarrow> (exn + ('e option \<times> string)) \<times> log_record list" where
  "extract_face_encoding L self image_file =
     (if \<not> FACE_RECOGNITION_AVAILABLE L
      then (Inr (None, ''Face recognition libraries not installed''), [])
      else
        (case extract_face_encoding_try L self image_file of
           (Inr r, logged) \<Rightarrow> (Inr r, logged)
         | (Inl e, logged) \<Rightarrow>
             let error_msg = ''Error processing image: '' @ str e
             in (Inr (None, error_msg), logged @ [(ERROR, error_msg)])))"

section \<open>compare_faces\<close>

definition compare_faces_try ::
  "('p, 'a, 'e) libs \<Rightarrow> service \<Rightarrow> 'e \<Rightarrow> 'e
     \<Rightarrow> (exn + (bool \<times> real)) \<times> log_record list" where
  "compare_faces_try L self known_encoding unknown_encoding =
     (if \<not> FACE_RECOGNITION_AVAILABLE L
      then (Inl (NoneType_attribute_error ''face_distance''), [])
      else
        (case face_distance L [known_encoding] unknown_encoding of
           Inl e \<Rightarrow> (Inl e, [])
         | Inr ds \<Rightarrow>
             (case ds of
                [] \<Rightarrow> (Inl (Exception ''index 0 is out of bounds for axis 0 with size 0''), [])
              | face_dist # _ \<Rightarrow>
                  let confidence_score = 1 - face_dist;
                      is_match = (face_dist \<le> RECOGNITION_THRESHOLD self)
                  in (Inr (is_match, confidence_score),
                      [(INFO, ''Face comparison: distance='' @ format_3f L face_dist
                              @ '', confidence='' @ format_3f L confidence_score
                              @ '', match='' @ str_bool is_match)]))))"

definition compare_faces ::
  "('p, 'a, 'e) libs \<Rightarrow> service \<Rightarrow> 'e \<Rightarrow> 'e
     \<Rightarrow> (exn + (bool \<times> real)) \<times> log_record list" where
  "compare_faces L self known_encoding unknown_encoding =
     (case compare_faces_try L self known_encoding unknown_encoding of
        (Inr r, logged) \<Rightarrow> (Inr r, logged)
      | (Inl e, logged) \<Rightarrow>
          let error_msg = ''Error comparing faces: '' @ str e
          in (Inr (False, 0), logged @ [(ERROR, error_msg)]))"

section \<open>verify_face\<close>

definition verify_face_try ::
  "('p, 'a, 'e) libs \<Rightarrow> service \<Rightarrow> image_file \<Rightarrow> image_file
     \<Rightarrow> (exn + (bool \<times> real \<times> string)) \<times> log_record list" where
  "verify_face_try L self staff_photo_path uploaded_photo =
     (case extract_face_encoding L self staff_photo_path of
        (Inl e, log1) \<Rightarrow> (Inl e, log1)
      | (Inr (staff_encoding, staff_error), log1) \<Rightarrow>
          (case staff_encoding of
             None \<Rightarrow> (Inr (False, 0, ''Staff photo error: '' @ staff_error), log1)
           | Some staff_enc \<Rightarrow>
               (case extract_face_encoding L self uploaded_photo of
                  (Inl e, log2) \<Rightarrow> (Inl e, log1 @ log2)
                | (Inr (uploaded_encoding, uploaded_error), log2) \<Rightarrow>
                    (case uploaded_encoding of
                       None \<Rightarrow>
                         (Inr (False, 0, ''Uploaded photo error: '' @ uploaded_error),
                          log1 @ log2)
                     | Some uploaded_enc \<Rightarrow>
                         (case compare_faces L self staff_enc uploaded_enc of
                            (Inl e, log3) \<Rightarrow> (Inl e, log1 @ log2 @ log3)
                          | (Inr (is_match, confidence_score), log3) \<Rightarrow>
                              (Inr (is_match, confidence_score, []),
                               log1 @ log2 @ log3))))))"

definition verify_face ::
  "('p, 'a, 'e) libs \<Rightarrow> service \<Rightarrow> image_file \<Rightarrow> image_file
     \<Rightarrow> (exn + (bool \<times> real \<times> string)) \<times> log_record list" where
  "verify_face L self staff_photo_path uploaded_photo =
     (case verify_face_try L self staff_photo_path uploaded_photo of
        (Inr r, logged) \<Rightarrow> (Inr r, logged)
      | (Inl e, logged) \<Rightarrow>
          let error_msg = ''Face verification failed: '' @ str e
          in (Inr (False, 0, error_msg), logged @ [(ERROR, error_msg)]))"

section \<open>batch_verify_faces\<close>

text \<open>
  The for loop over \<^verbatim>\<open>staff_encodings\<close>, with the list \<^verbatim>\<open>results\<close> it appends
  to. The loop body is a try block of its own.
\<close>

fun batch_loop ::
  "('p, 'a, 'e) libs \<Rightarrow> service \<Rightarrow> 'e \<Rightarrow> (string \<times> 'e) list
     \<Rightarrow> (string \<times> bool \<times> real) list
     \<Rightarrow> (string \<times> bool \<times> real) list \<times> log_record list" where
  "batch_loop L self uploaded_enc [] results = (results, [])"
| "batch_loop L self uploaded_enc ((staff_id, staff_encoding) # rest) results =
     (case compare_faces L self staff_encoding uploaded_enc of
        (Inr (is_match, confidence), logged) \<Rightarrow>
          (case batch_loop L self uploaded_enc rest
                  (results @ [(staff_id, is_match, confidence)]) of
             (final, logged') \<Rightarrow> (final, logged @ logged'))
      | (Inl e, logged) \<Rightarrow>
          (case batch_loop L self uploaded_enc rest (results @ [(staff_id, False, 0)]) of
             (final, logged') \<Rightarrow>
               (final,
                logged @ [(ERROR, ''Error comparing with staff '' @ staff_id @ '': '' @ str e)]
                  @ logged')))"

definition batch_verify_faces ::
  "('p, 'a, 'e) libs \<Rightarrow> service \<Rightarrow> (string \<times> 'e) list \<Rightarrow> image_file
     \<Rightarrow> (exn + (string \<times> bool \<times> real) list) \<times> log_record list" where
  "batch_verify_faces L self staff_encodings uploaded_photo =
     (case extract_face_encoding L self uploaded_photo of
        (Inl e, log1) \<Rightarrow> (Inl e, log1)
      | (Inr (uploaded_encoding, error), log1) \<Rightarrow>
          (case uploaded_encoding of
             None \<Rightarrow> (Inr (map (\<lambda>(staff_id, _). (staff_id, False, 0)) staff_encodings), log1)
           | Some uploaded_enc \<Rightarrow>
               (case batch_loop L self uploaded_enc staff_encodings [] of
                  (results, log2) \<Rightarrow> (Inr results, log1 @ log2))))"


section \<open>The contract of the distance metric\<close>

text \<open>
  Modelled from the spec: the distance metric is \<^verbatim>\<open>face_recognition.face_distance\<close>,
  a library function that is not among the sources. Section 4.4 of the specification
  requires the metric to be zero for \<^verbatim>\<open>compare(a, a)\<close>; for the call the service
  makes, with the one-element list of known encodings, that reads as follows.
\<close>

definition metric_zero_on_self :: "('p, 'a, 'e) libs \<Rightarrow> 'e \<Rightarrow> bool" where
  "metric_zero_on_self L a = (face_distance L [a] a = Inr [0])"

section \<open>A sample library for concrete runs\<close>

text \<open>
  A small stand-in for the libraries, used where a run on a concrete input is shown. A
  pixel array is the list of the faces in the picture, each with its location and its
  encoding. Encodings are lists of reals; their distance is the Euclidean norm of the
  difference, where the difference follows numpy's broadcasting: a one-element operand
  is stretched, and otherwise two operands of different lengths cannot be subtracted.
\<close>

type_synonym sample_array = "(location \<times> real list) list"

definition sample_files :: "string \<Rightarrow> sample_array option" where
  "sample_files name =
     (if name = ''empty.jpg'' then Some []
      else if name = ''alice.jpg'' then Some [((0, 10, 10, 0), [0, 0])]
      else if name = ''bob.jpg'' then Some [((0, 10, 10, 0), [1, 0])]
      else if name = ''group.jpg''
        then Some [((0, 10, 10, 0), [0, 0]), ((0, 30, 10, 20), [1, 0])]
      else if name = ''odd.jpg'' then Some [((0, 10, 10, 0), [0, 0, 0])]
      else None)"

fun broadcast_sub :: "real list \<Rightarrow> real list \<Rightarrow> real list option" where
  "broadcast_sub [x] ys = Some (map (\<lambda>y. x - y) ys)"
| "broadcast_sub xs [y] = Some (map (\<lambda>x. x - y) xs)"
| "broadcast_sub xs ys =
     (if length xs = length ys then Some (map (\<lambda>(x, y). x - y) (zip xs ys)) else None)"

definition norm2 :: "real list \<Rightarrow> real" where
  "norm2 v = sqrt (sum_list (map (\<lambda>x. x\<^sup>2) v))"

definition sample_distance :: "real list list \<Rightarrow> real list \<Rightarrow> exn + real list" where
  "sample_distance encs e =
     (case those (map (\<lambda>k. broadcast_sub k e) encs) of
        None \<Rightarrow> Inl (Exception ''operands could not be broadcast together'')
      | Some ds \<Rightarrow> Inr (map norm2 ds))"

definition sample_libs :: "(string \<times> sample_array, sample_array, real list) libs" where
  "sample_libs =
     \<lparr> FACE_RECOGNITION_AVAILABLE = True,
       Image_open = (\<lambda>data. case sample_files data of
                        None \<Rightarrow> Inl (Exception ''cannot identify image file'')
                      | Some faces \<Rightarrow> Inr (''RGB'', faces)),
       image_mode = fst,
       image_convert = (\<lambda>img mode. Inr (mode, snd img)),
       np_array = (\<lambda>img. Inr (snd img)),
       load_image_file = (\<lambda>path. case sample_files path of
                        None \<Rightarrow> Inl (Exception ''No such file or directory'')
                      | Some faces \<Rightarrow> Inr faces),
       face_locations = (\<lambda>arr model. Inr (map fst arr)),
       face_encodings = (\<lambda>arr locs model.
                        Inr (map (\<lambda>l. case map_of arr l of None \<Rightarrow> [] | Some enc \<Rightarrow> enc) locs)),
       face_distance = sample_distance,
       format_3f = (\<lambda>r. if r = 0 then ''0.000'' else if r = 1 then ''1.000'' else ''#.###'') \<rparr>"

section \<open>Basic facts\<close>

lemmas sample_simps =
  sample_libs_def sample_files_def sample_distance_def norm2_def FaceRecognitionService_def
  str_bool_def digit_char_def str_nat.simps load_image_def

lemma compare_faces_returns:
  "\<exists>r. fst (compare_faces L self k u) = Inr r"
proof (cases "compare_faces_try L self k u")
  case (Pair r logged)
  then show ?thesis by (cases r) (auto simp: compare_faces_def Let_def)
qed

lemma compare_faces_ok:
  assumes "FACE_RECOGNITION_AVAILABLE L" and "face_distance L [k] u = Inr (d # ds)"
  shows "fst (compare_faces L self k u) = Inr (d \<le> RECOGNITION_THRESHOLD self, 1 - d)"
  using assms by (simp add: compare_faces_def compare_faces_try_def Let_def)

lemma extract_no_face:
  assumes "FACE_RECOGNITION_AVAILABLE L" and "load_image L image_file = Inr arr"
    and "face_locations L arr (encoding_model self) = Inr []"
  shows "extract_face_encoding L self image_file
           = (Inr (None, ''No face detected in the image''), [])"
  using assms by (simp add: extract_face_encoding_def extract_face_encoding_try_def)

lemma extract_returns:
  "\<exists>enc msg logged. extract_face_encoding L self image_file = (Inr (enc, msg), logged)"
proof (cases "extract_face_encoding_try L self image_file")
  case (Pair r logged)
  then show ?thesis by (cases r) (auto simp: extract_face_encoding_def Let_def)
qed

lemma load_image_face_distance_update:
  "load_image (L\<lparr>face_distance := d\<rparr>) image_file = load_image L image_file"
  by (simp add: load_image_def cong: image_file.case_cong sum.case_cong if_cong)

lemmas run_simps =
  verify_face_def verify_face_try_def extract_face_encoding_def extract_face_encoding_try_def
  compare_faces_def compare_faces_try_def batch_verify_faces_def sample_simps Let_def

lemma compare_faces_entry:
  "fst (compare_faces L self k u)
     = Inr (if FACE_RECOGNITION_AVAILABLE L
            then (case face_distance L [k] u of
                    Inr (d # _) \<Rightarrow> (d \<le> RECOGNITION_THRESHOLD self, 1 - d)
                  | _ \<Rightarrow> (False, 0))
            else (False, 0))"
  by (simp add: compare_faces_def compare_faces_try_def Let_def split: sum.splits list.splits)

lemma compare_faces_fault:
  assumes "fst (compare_faces_try L self k u) = Inl e"
  shows "compare_faces L self k u
           = (Inr (False, 0), snd (compare_faces_try L self k u)
                                @ [(ERROR, ''Error comparing faces: '' @ str e)])"
  using assms
  by (cases "compare_faces_try L self k u") (simp add: compare_faces_def Let_def)

lemma extract_fault:
  assumes "FACE_RECOGNITION_AVAILABLE L"
    and "fst (extract_face_encoding_try L self image_file) = Inl e"
  shows "fst (extract_face_encoding L self image_file)
           = Inr (None, ''Error processing image: '' @ str e)"
  using assms
  by (cases "extract_face_encoding_try L self image_file")
     (simp add: extract_face_encoding_def Let_def)

lemma extract_success:
  assumes "FACE_RECOGNITION_AVAILABLE L"
    and "fst (extract_face_encoding_try L self image_file) = Inr r"
  shows "fst (extract_face_encoding L self image_file) = Inr r"
  using assms
  by (cases "extract_face_encoding_try L self image_file")
     (simp add: extract_face_encoding_def Let_def)

lemma verify_face_staff_none:
  assumes "fst (extract_face_encoding L self staff_photo_path) = Inr (None, staff_error)"
  shows "fst (verify_face L self staff_photo_path uploaded_photo)
           = Inr (False, 0, ''Staff photo error: '' @ staff_error)"
  using assms
  by (cases "extract_face_encoding L self staff_photo_path")
     (simp add: verify_face_def verify_face_try_def)

lemma verify_face_uploaded_none:
  assumes "fst (extract_face_encoding L self staff_photo_path) = Inr (Some se, staff_error)"
    and "fst (extract_face_encoding L self uploaded_photo) = Inr (None, uploaded_error)"
  shows "fst (verify_face L self staff_photo_path uploaded_photo)
           = Inr (False, 0, ''Uploaded photo error: '' @ uploaded_error)"
  using assms
  by (cases "extract_face_encoding L self staff_photo_path";
      cases "extract_face_encoding L self uploaded_photo")
     (simp add: verify_face_def verify_face_try_def)

lemma verify_face_compared:
  assumes "fst (extract_face_encoding L self staff_photo_path) = Inr (Some se, staff_error)"
    and "fst (extract_face_encoding L self uploaded_photo) = Inr (Some ue, uploaded_error)"
    and "fst (compare_faces L self se ue) = Inr (is_match, confidence_score)"
  shows "fst (verify_face L self staff_photo_path uploaded_photo)
           = Inr (is_match, confidence_score, [])"
  using assms
  by (cases "extract_face_encoding L self staff_photo_path";
      cases "extract_face_encoding L self uploaded_photo";
      cases "compare_faces L self se ue")
     (simp add: verify_face_def verify_face_try_def)

lemma batch_loop_results:
  "fst (batch_loop L self ue staff_encodings results)
     = results @ map (\<lambda>(staff_id, staff_encoding).
                        case fst (compare_faces L self staff_encoding ue) of
                          Inr (is_match, confidence) \<Rightarrow> (staff_id, is_match, confidence)
                        | Inl e \<Rightarrow> (staff_id, False, 0)) staff_encodings"
proof (induction staff_encodings arbitrary: results)
  case Nil
  then show ?case by simp
next
  case (Cons p rest)
  obtain staff_id staff_encoding where p: "p = (staff_id, staff_encoding)" by (cases p)
  obtain r logged where c: "compare_faces L self staff_encoding ue = (r, logged)"
    by (cases "compare_faces L self staff_encoding ue")
  show ?case
  proof (cases r)
    case (Inl e)
    with p c Cons.IH [of "results @ [(staff_id, False, 0)]"] show ?thesis
      by (simp add: case_prod_unfold)
  next
    case (Inr mc)
    obtain is_match confidence where mc: "mc = (is_match, confidence)" by (cases mc)
    with Inr p c Cons.IH [of "results @ [(staff_id, is_match, confidence)]"] show ?thesis
      by (simp add: case_prod_unfold)
  qed
qed

lemma batch_loop_ids:
  "map fst (fst (batch_loop L self ue staff_encodings results))
     = map fst results @ map fst staff_encodings"
  unfolding batch_loop_results
  by (induction staff_encodings) (auto split: sum.splits)

text \<open>
  Both callees catch every exception themselves, so the try block of \<open>verify_face\<close>
  always returns and its handler is never entered.
\<close>

lemma verify_face_try_returns:
  "\<exists>res. fst (verify_face_try L self staff_photo_path uploaded_photo) = Inr res"
proof -
  obtain e1 m1 l1 where 1: "extract_face_encoding L self staff_photo_path = (Inr (e1, m1), l1)"
    using extract_returns by blast
  obtain e2 m2 l2 where 2: "extract_face_encoding L self uploaded_photo = (Inr (e2, m2), l2)"
    using extract_returns by blast
  show ?thesis
  proof (cases e1)
    case None
    with 1 show ?thesis by (auto simp: verify_face_try_def)
  next
    case s: (Some se)
    show ?thesis
    proof (cases e2)
      case None
      with 1 2 s show ?thesis by (auto simp: verify_face_try_def)
    next
      case (Some ue)
      obtain r where "fst (compare_faces L self se ue) = Inr r"
        using compare_faces_returns [of L self se ue] by blast
      then obtain l3 where "compare_faces L self se ue = (Inr r, l3)"
        by (cases "compare_faces L self se ue") simp
      with 1 2 s Some show ?thesis by (auto simp: verify_face_try_def case_prod_unfold)
    qed
  qed
qed

lemma extract_multiple_faces:
  assumes "FACE_RECOGNITION_AVAILABLE L"
    and "load_image L image_file = Inr arr"
    and "face_locations L arr (encoding_model self) = Inr locs"
    and "length locs > 1"
  shows "extract_face_encoding L self image_file
           = (case face_encodings L arr locs (encoding_model self) of
                Inr (enc # _) \<Rightarrow>
                  (Inr (Some enc, []),
                   [(WARNING, ''Multiple faces detected ('' @ str_nat (length locs)
                              @ ''), using the first one'')])
              | Inr [] \<Rightarrow>
                  (Inr (None, ''Could not generate face encoding''),
                   [(WARNING, ''Multiple faces detected ('' @ str_nat (length locs)
                              @ ''), using the first one'')])
              | Inl e \<Rightarrow>
                  (Inr (None, ''Error processing image: '' @ str e),
                   [(WARNING, ''Multiple faces detected ('' @ str_nat (length locs)
                              @ ''), using the first one''),
                    (ERROR, ''Error processing image: '' @ str e)]))"
proof -
  from assms(4) have "locs \<noteq> []" by auto
  with assms show ?thesis
    by (simp add: extract_face_encoding_def extract_face_encoding_try_def Let_def
             split: sum.splits list.splits)
qed

lemma verify_face_log_staff:
  "set (snd (extract_face_encoding L self staff_photo_path))
     \<subseteq> set (snd (verify_face L self staff_photo_path uploaded_photo))"
  by (auto simp: verify_face_def verify_face_try_def Let_def
           split: prod.splits sum.splits option.splits)

lemma verify_face_log_uploaded:
  assumes "fst (extract_face_encoding L self staff_photo_path) = Inr (Some se, staff_error)"
  shows "set (snd (extract_face_encoding L self uploaded_photo))
           \<subseteq> set (snd (verify_face L self staff_photo_path uploaded_photo))"
  using assms
  by (auto simp: verify_face_def verify_face_try_def Let_def
           split: prod.splits sum.splits option.splits)

text \<open>The sample metric is zero on identical encodings, of any length.\<close>

lemma norm2_zeros: "set v \<subseteq> {0} \<Longrightarrow> norm2 v = 0"
  by (induction v) (simp_all add: norm2_def)

lemma broadcast_sub_self: "\<exists>v. broadcast_sub a a = Some v \<and> set v \<subseteq> {0}"
  by (cases a rule: remdups_adj.cases) (auto simp: zip_same_conv_map)

lemma sample_metric_zero_on_self: "metric_zero_on_self sample_libs a"
proof -
  obtain v where "broadcast_sub a a = Some v" "set v \<subseteq> {0}"
    using broadcast_sub_self by blast
  then show ?thesis
    by (simp add: metric_zero_on_self_def sample_libs_def sample_distance_def norm2_zeros)
qed

section \<open>The matcher\<close>

text \<open>
  Claim C1. Whenever the library yields a distance \<open>d\<close> for the pair, \<open>compare_faces\<close>
  returns the confidence \<open>1 - d\<close> and the match flag \<open>d \<le> threshold\<close>, where the
  threshold is the attribute \<open>RECOGNITION_THRESHOLD\<close> of the service; for a service as
  constructed, that threshold is 0.6.
\<close>

theorem compare_faces_confidence_and_match:
  assumes "FACE_RECOGNITION_AVAILABLE L" and "face_distance L [known] unknown = Inr (d # ds)"
  shows "fst (compare_faces L self known unknown)
           = Inr (d \<le> RECOGNITION_THRESHOLD self, 1 - d)
       \<and> fst (compare_faces L (FaceRecognitionService m) known unknown)
           = Inr (d \<le> 6 / 10, 1 - d)"
  using assms by (simp add: compare_faces_ok FaceRecognitionService_def)

theorem compare_faces_confidence_and_match_witness:
  "FACE_RECOGNITION_AVAILABLE sample_libs
   \<and> face_distance sample_libs [[0, 0]] [1, 0] = Inr [1]
   \<and> fst (compare_faces sample_libs (FaceRecognitionService None) [0, 0] [1, 0])
       = Inr (False, 0)"
proof -
  have a: "FACE_RECOGNITION_AVAILABLE sample_libs" by (simp add: sample_libs_def)
  have b: "face_distance sample_libs [[0, 0]] [1, 0] = Inr [1]" by (simp add: sample_simps)
  from compare_faces_confidence_and_match [OF a b, of "FaceRecognitionService None" None] a b
  show ?thesis by (simp add: FaceRecognitionService_def)
qed

section \<open>Images without a face\<close>

text \<open>
  Claim C2. When the face locator reports no face in the reference image, \<open>verify_face\<close>
  returns no match, confidence 0 and the reference-side message, whatever the probe
  is; the probe is not looked at, so a pair of two faceless images reports the
  reference side.
\<close>

theorem verify_face_no_face_reference:
  assumes "FACE_RECOGNITION_AVAILABLE L"
    and "load_image L staff_photo_path = Inr arr"
    and "face_locations L arr (encoding_model self) = Inr []"
  shows "verify_face L self staff_photo_path uploaded_photo
           = (Inr (False, 0, ''Staff photo error: No face detected in the image''), [])"
  using extract_no_face [OF assms] by (simp add: verify_face_def verify_face_try_def)

theorem verify_face_no_face_reference_witness:
  "FACE_RECOGNITION_AVAILABLE sample_libs
   \<and> load_image sample_libs (FilePath ''empty.jpg'') = Inr []
   \<and> face_locations sample_libs [] (encoding_model (FaceRecognitionService None)) = Inr []
   \<and> verify_face sample_libs (FaceRecognitionService None) (FilePath ''empty.jpg'')
        (FilePath ''empty.jpg'')
        = (Inr (False, 0, ''Staff photo error: No face detected in the image''), [])"
proof -
  have a: "FACE_RECOGNITION_AVAILABLE sample_libs" by (simp add: sample_libs_def)
  have b: "load_image sample_libs (FilePath ''empty.jpg'') = Inr []"
    by (simp add: sample_simps)
  have c: "face_locations sample_libs [] (encoding_model (FaceRecognitionService None)) = Inr []"
    by (simp add: sample_libs_def)
  from verify_face_no_face_reference [OF a b c, of "FilePath ''empty.jpg''"] a b c
  show ?thesis by simp
qed

text \<open>
  Claim C3. When the face locator reports no face in the probe, \<open>batch_verify_faces\<close>
  returns, for the supplied pairs in their order, one entry (id, False, 0) each; nothing
  is logged, and the result is the same whatever the library's distance function is,
  so no encoding is compared.
\<close>

theorem batch_verify_faces_no_probe_face:
  assumes "FACE_RECOGNITION_AVAILABLE L"
    and "load_image L uploaded_photo = Inr arr"
    and "face_locations L arr (encoding_model self) = Inr []"
  shows "batch_verify_faces L self staff_encodings uploaded_photo
           = (Inr (map (\<lambda>p. (fst p, False, 0)) staff_encodings), [])
       \<and> batch_verify_faces (L\<lparr>face_distance := d\<rparr>) self staff_encodings uploaded_photo
           = batch_verify_faces L self staff_encodings uploaded_photo"
proof -
  have 1: "batch_verify_faces L self staff_encodings uploaded_photo
           = (Inr (map (\<lambda>p. (fst p, False, 0)) staff_encodings), [])"
    using extract_no_face [OF assms]
    by (simp add: batch_verify_faces_def case_prod_unfold)
  have "load_image (L\<lparr>face_distance := d\<rparr>) uploaded_photo = Inr arr"
    using assms(2) by (simp add: load_image_face_distance_update)
  then have "extract_face_encoding (L\<lparr>face_distance := d\<rparr>) self uploaded_photo
               = (Inr (None, ''No face detected in the image''), [])"
    using assms by (intro extract_no_face) simp_all
  then have 2: "batch_verify_faces (L\<lparr>face_distance := d\<rparr>) self staff_encodings uploaded_photo
           = (Inr (map (\<lambda>p. (fst p, False, 0)) staff_encodings), [])"
    by (simp add: batch_verify_faces_def case_prod_unfold)
  from 1 2 show ?thesis by simp
qed

theorem batch_verify_faces_no_probe_face_witness:
  "FACE_RECOGNITION_AVAILABLE sample_libs
   \<and> load_image sample_libs (FilePath ''empty.jpg'') = Inr []
   \<and> face_locations sample_libs [] (encoding_model (FaceRecognitionService None)) = Inr []
   \<and> batch_verify_faces sample_libs (FaceRecognitionService None)
        [(''s1'', [0, 0]), (''s2'', [1, 0])] (FilePath ''empty.jpg'')
        = (Inr [(''s1'', False, 0), (''s2'', False, 0)], [])"
proof -
  have a: "FACE_RECOGNITION_AVAILABLE sample_libs" by (simp add: sample_libs_def)
  have b: "load_image sample_libs (FilePath ''empty.jpg'') = Inr []"
    by (simp add: sample_simps)
  have c: "face_locations sample_libs [] (encoding_model (FaceRecognitionService None)) = Inr []"
    by (simp add: sample_libs_def)
  from batch_verify_faces_no_probe_face [OF a b c, of "[(''s1'', [0, 0]), (''s2'', [1, 0])]"] a b c
  show ?thesis by simp
qed

section \<open>Self-comparison, thresholds and failures of the matcher\<close>

text \<open>
  Claim C7. If the library's metric is zero on the pair (a, a), as the specification
  requires of it, then for every service whose threshold is at least 0 the comparison
  of \<open>a\<close> with itself is a match, with confidence 1, that is, distance 0.
\<close>

theorem compare_faces_self:
  assumes "FACE_RECOGNITION_AVAILABLE L" and "metric_zero_on_self L a"
    and "0 \<le> RECOGNITION_THRESHOLD self"
  shows "fst (compare_faces L self a a) = Inr (True, 1)"
  using assms by (simp add: compare_faces_entry metric_zero_on_self_def)

theorem compare_faces_self_witness:
  "FACE_RECOGNITION_AVAILABLE sample_libs
   \<and> metric_zero_on_self sample_libs [3, 4]
   \<and> 0 \<le> RECOGNITION_THRESHOLD (FaceRecognitionService None)
   \<and> fst (compare_faces sample_libs (FaceRecognitionService None) [3, 4] [3, 4]) = Inr (True, 1)"
proof -
  have a: "FACE_RECOGNITION_AVAILABLE sample_libs" by (simp add: sample_libs_def)
  have b: "metric_zero_on_self sample_libs [3, 4]" by (rule sample_metric_zero_on_self)
  have c: "0 \<le> RECOGNITION_THRESHOLD (FaceRecognitionService None)"
    by (simp add: FaceRecognitionService_def)
  from compare_faces_self [OF a b c] a b c show ?thesis by simp
qed

text \<open>
  Claim C8. For a fixed pair of encodings, a match at threshold \<open>t\<close> is a match, with
  the same confidence, at every threshold \<open>t' \<ge> t\<close>. The concrete run after the
  theorem also shows a pair that does not match at 0.6 and matches at 1.5.
\<close>

theorem compare_faces_threshold_mono:
  assumes "t \<le> t'"
    and "fst (compare_faces L (self\<lparr>RECOGNITION_THRESHOLD := t\<rparr>) known unknown) = Inr (True, c)"
  shows "fst (compare_faces L (self\<lparr>RECOGNITION_THRESHOLD := t'\<rparr>) known unknown) = Inr (True, c)"
  using assms
  by (auto simp: compare_faces_entry split: if_splits sum.splits list.splits)

theorem compare_faces_threshold_mono_witness:
  "(6 / 10 :: real) \<le> 3 / 2
   \<and> fst (compare_faces sample_libs (FaceRecognitionService None\<lparr>RECOGNITION_THRESHOLD := 6 / 10\<rparr>)
           [0, 0] [0, 0]) = Inr (True, 1)
   \<and> fst (compare_faces sample_libs (FaceRecognitionService None\<lparr>RECOGNITION_THRESHOLD := 3 / 2\<rparr>)
           [0, 0] [0, 0]) = Inr (True, 1)
   \<and> fst (compare_faces sample_libs (FaceRecognitionService None\<lparr>RECOGNITION_THRESHOLD := 6 / 10\<rparr>)
           [0, 0] [1, 0]) = Inr (False, 0)
   \<and> fst (compare_faces sample_libs (FaceRecognitionService None\<lparr>RECOGNITION_THRESHOLD := 3 / 2\<rparr>)
           [0, 0] [1, 0]) = Inr (True, 0)"
proof -
  have a: "(6 / 10 :: real) \<le> 3 / 2" by simp
  have b: "fst (compare_faces sample_libs (FaceRecognitionService None\<lparr>RECOGNITION_THRESHOLD := 6 / 10\<rparr>)
           [0, 0] [0, 0]) = Inr (True, 1)"
    by (simp add: run_simps)
  have c: "fst (compare_faces sample_libs (FaceRecognitionService None\<lparr>RECOGNITION_THRESHOLD := 6 / 10\<rparr>)
           [0, 0] [1, 0]) = Inr (False, 0)"
    by (simp add: run_simps)
  have d: "fst (compare_faces sample_libs (FaceRecognitionService None\<lparr>RECOGNITION_THRESHOLD := 3 / 2\<rparr>)
           [0, 0] [1, 0]) = Inr (True, 0)"
    by (simp add: run_simps)
  from compare_faces_threshold_mono [OF a b] a b c d show ?thesis by simp
qed

text \<open>
  Claim C6, as amended. \<open>compare_faces\<close> has no failure path at all: for every pair of
  encodings it returns a result, and when the library's distance computation raises, as
  it does on encodings whose dimensions cannot be combined, the result is (False, 0)
  and the fault goes to the log; no error is signalled to the caller.
\<close>

theorem compare_faces_never_raises:
  "(\<exists>r. fst (compare_faces L self known unknown) = Inr r)
   \<and> (FACE_RECOGNITION_AVAILABLE L \<longrightarrow> face_distance L [known] unknown = Inl e \<longrightarrow>
        compare_faces L self known unknown
          = (Inr (False, 0), [(ERROR, ''Error comparing faces: '' @ str e)]))"
  using compare_faces_returns [of L self known unknown]
  by (simp add: compare_faces_def compare_faces_try_def Let_def)

theorem compare_faces_never_raises_witness:
  "FACE_RECOGNITION_AVAILABLE sample_libs
   \<and> face_distance sample_libs [[0, 0]] [0, 0, 0]
       = Inl (Exception ''operands could not be broadcast together'')
   \<and> compare_faces sample_libs (FaceRecognitionService None) [0, 0] [0, 0, 0]
       = (Inr (False, 0),
          [(ERROR, ''Error comparing faces: operands could not be broadcast together'')])"
proof -
  have a: "FACE_RECOGNITION_AVAILABLE sample_libs" by (simp add: sample_libs_def)
  have b: "face_distance sample_libs [[0, 0]] [0, 0, 0]
             = Inl (Exception ''operands could not be broadcast together'')"
    by (simp add: sample_simps)
  from compare_faces_never_raises [of sample_libs "FaceRecognitionService None" "[0, 0]"
         "[0, 0, 0]" "Exception ''operands could not be broadcast together''"] a b
  show ?thesis by simp
qed

text \<open>
  The run that refutes the claim as stated: two encodings of lengths 2 and 3, on which
  the distance computation raises, are compared without any error being signalled.
\<close>

theorem compare_faces_mismatch_counterexample:
  "length [0, 0 :: real] \<noteq> length [0, 0, 0 :: real]
   \<and> face_distance sample_libs [[0, 0]] [0, 0, 0]
       = Inl (Exception ''operands could not be broadcast together'')
   \<and> fst (compare_faces sample_libs (FaceRecognitionService None) [0, 0] [0, 0, 0])
       = Inr (False, 0)"
  by (simp add: run_simps)

section \<open>Batch verification\<close>

text \<open>
  Claim C4. \<open>batch_verify_faces\<close> always returns one entry per supplied pair, with the
  ids of the input in their order. When the probe yields an encoding, the entry of an
  id depends on the distance of its own encoding only: (id, d \<le> threshold, 1 - d) when
  the library yields the distance \<open>d\<close>, and (id, False, 0) when the comparison fails,
  the other entries being computed all the same.
\<close>

theorem batch_verify_faces_entries:
  "(\<exists>rs. fst (batch_verify_faces L self staff_encodings uploaded_photo) = Inr rs
          \<and> map fst rs = map fst staff_encodings)
   \<and> (fst (extract_face_encoding L self uploaded_photo) = Inr (Some ue, msg) \<longrightarrow>
        fst (batch_verify_faces L self staff_encodings uploaded_photo)
           = Inr (map (\<lambda>(staff_id, staff_encoding).
                    case face_distance L [staff_encoding] ue of
                      Inr (d # _) \<Rightarrow> (staff_id, d \<le> RECOGNITION_THRESHOLD self, 1 - d)
                    | _ \<Rightarrow> (staff_id, False, 0)) staff_encodings))"
proof (rule conjI)
  obtain enc m logged where
    e: "extract_face_encoding L self uploaded_photo = (Inr (enc, m), logged)"
    using extract_returns by blast
  show "\<exists>rs. fst (batch_verify_faces L self staff_encodings uploaded_photo) = Inr rs
          \<and> map fst rs = map fst staff_encodings"
  proof (cases enc)
    case None
    with e show ?thesis by (simp add: batch_verify_faces_def case_prod_unfold)
  next
    case (Some u)
    with e have "fst (batch_verify_faces L self staff_encodings uploaded_photo)
                   = Inr (fst (batch_loop L self u staff_encodings []))"
      by (simp add: batch_verify_faces_def case_prod_unfold)
    then show ?thesis by (simp add: batch_loop_ids)
  qed
next
  show "fst (extract_face_encoding L self uploaded_photo) = Inr (Some ue, msg) \<longrightarrow>
        fst (batch_verify_faces L self staff_encodings uploaded_photo)
           = Inr (map (\<lambda>(staff_id, staff_encoding).
                    case face_distance L [staff_encoding] ue of
                      Inr (d # _) \<Rightarrow> (staff_id, d \<le> RECOGNITION_THRESHOLD self, 1 - d)
                    | _ \<Rightarrow> (staff_id, False, 0)) staff_encodings)"
  proof
    assume a: "fst (extract_face_encoding L self uploaded_photo) = Inr (Some ue, msg)"
    have avail: "FACE_RECOGNITION_AVAILABLE L"
      using a by (auto simp: extract_face_encoding_def split: if_splits)
    obtain logged where
      e: "extract_face_encoding L self uploaded_photo = (Inr (Some ue, msg), logged)"
      using a by (cases "extract_face_encoding L self uploaded_photo") simp
    have same: "map (\<lambda>(staff_id, staff_encoding).
                        case fst (compare_faces L self staff_encoding ue) of
                          Inr (is_match, confidence) \<Rightarrow> (staff_id, is_match, confidence)
                        | Inl e \<Rightarrow> (staff_id, False, 0)) staff_encodings
       = map (\<lambda>(staff_id, staff_encoding).
                    case face_distance L [staff_encoding] ue of
                      Inr (d # _) \<Rightarrow> (staff_id, d \<le> RECOGNITION_THRESHOLD self, 1 - d)
                    | _ \<Rightarrow> (staff_id, False, 0)) staff_encodings"
      by (rule map_cong) (auto simp: compare_faces_entry avail split: sum.splits list.splits)
    have "fst (batch_verify_faces L self staff_encodings uploaded_photo)
            = Inr (fst (batch_loop L self ue staff_encodings []))"
      using e by (simp add: batch_verify_faces_def case_prod_unfold)
    then show "fst (batch_verify_faces L self staff_encodings uploaded_photo)
           = Inr (map (\<lambda>(staff_id, staff_encoding).
                    case face_distance L [staff_encoding] ue of
                      Inr (d # _) \<Rightarrow> (staff_id, d \<le> RECOGNITION_THRESHOLD self, 1 - d)
                    | _ \<Rightarrow> (staff_id, False, 0)) staff_encodings)"
      by (simp add: batch_loop_results same)
  qed
qed

theorem batch_verify_faces_entries_witness:
  "fst (extract_face_encoding sample_libs (FaceRecognitionService None) (FilePath ''alice.jpg''))
     = Inr (Some [0, 0], [])
   \<and> fst (batch_verify_faces sample_libs (FaceRecognitionService None)
           [(''s1'', [1, 0]), (''s2'', [0, 0, 0]), (''s3'', [0, 0])] (FilePath ''alice.jpg''))
     = Inr [(''s1'', False, 0), (''s2'', False, 0), (''s3'', True, 1)]"
proof -
  have a: "fst (extract_face_encoding sample_libs (FaceRecognitionService None)
                 (FilePath ''alice.jpg'')) = Inr (Some [0, 0], [])"
    by (simp add: run_simps)
  from batch_verify_faces_entries [of sample_libs "FaceRecognitionService None"
         "[(''s1'', [1, 0]), (''s2'', [0, 0, 0]), (''s3'', [0, 0])]" "FilePath ''alice.jpg''"
         "[0, 0]" "[]"] a
  show ?thesis by (simp add: sample_simps)
qed

section \<open>Faults and diagnostics in verify_face\<close>

text \<open>
  Claim C5, as amended. A fault raised while loading an image, locating its faces or
  encoding them ends \<open>verify_face\<close> with no match, confidence 0 and a non-empty
  diagnostic: the prefix of the side, then \<^verbatim>\<open>Error processing image: \<close> and the text
  of the fault. A fault raised while comparing the two encodings is absorbed by
  \<open>compare_faces\<close>: \<open>verify_face\<close> returns no match, confidence 0 and an empty
  diagnostic, and the text of the fault is in the log only.
\<close>

theorem verify_face_fault_outcomes:
  assumes "FACE_RECOGNITION_AVAILABLE L"
  shows "(fst (extract_face_encoding_try L self staff_photo_path) = Inl e \<longrightarrow>
            fst (verify_face L self staff_photo_path uploaded_photo)
              = Inr (False, 0, ''Staff photo error: Error processing image: '' @ str e))
       \<and> (fst (extract_face_encoding_try L self staff_photo_path) = Inr (Some se, m1) \<longrightarrow>
          fst (extract_face_encoding_try L self uploaded_photo) = Inl e \<longrightarrow>
            fst (verify_face L self staff_photo_path uploaded_photo)
              = Inr (False, 0, ''Uploaded photo error: Error processing image: '' @ str e))
       \<and> (fst (extract_face_encoding_try L self staff_photo_path) = Inr (Some se, m1) \<longrightarrow>
          fst (extract_face_encoding_try L self uploaded_photo) = Inr (Some ue, m2) \<longrightarrow>
          fst (compare_faces_try L self se ue) = Inl e \<longrightarrow>
            fst (verify_face L self staff_photo_path uploaded_photo) = Inr (False, 0, [])
            \<and> (ERROR, ''Error comparing faces: '' @ str e)
                \<in> set (snd (verify_face L self staff_photo_path uploaded_photo)))"
proof (intro conjI impI)
  assume "fst (extract_face_encoding_try L self staff_photo_path) = Inl e"
  from verify_face_staff_none [OF extract_fault [OF assms this]]
  show "fst (verify_face L self staff_photo_path uploaded_photo)
              = Inr (False, 0, ''Staff photo error: Error processing image: '' @ str e)"
    by simp
next
  assume s: "fst (extract_face_encoding_try L self staff_photo_path) = Inr (Some se, m1)"
    and u: "fst (extract_face_encoding_try L self uploaded_photo) = Inl e"
  from verify_face_uploaded_none [OF extract_success [OF assms s] extract_fault [OF assms u]]
  show "fst (verify_face L self staff_photo_path uploaded_photo)
              = Inr (False, 0, ''Uploaded photo error: Error processing image: '' @ str e)"
    by simp
next
  assume s: "fst (extract_face_encoding_try L self staff_photo_path) = Inr (Some se, m1)"
    and u: "fst (extract_face_encoding_try L self uploaded_photo) = Inr (Some ue, m2)"
    and c: "fst (compare_faces_try L self se ue) = Inl e"
  have "fst (compare_faces L self se ue) = Inr (False, 0)"
    by (simp add: compare_faces_fault [OF c])
  from verify_face_compared [OF extract_success [OF assms s] extract_success [OF assms u] this]
  show "fst (verify_face L self staff_photo_path uploaded_photo) = Inr (False, 0, [])" .
next
  assume s: "fst (extract_face_encoding_try L self staff_photo_path) = Inr (Some se, m1)"
    and u: "fst (extract_face_encoding_try L self uploaded_photo) = Inr (Some ue, m2)"
    and c: "fst (compare_faces_try L self se ue) = Inl e"
  obtain l1 where 1: "extract_face_encoding L self staff_photo_path = (Inr (Some se, m1), l1)"
    using extract_success [OF assms s]
    by (cases "extract_face_encoding L self staff_photo_path") simp
  obtain l2 where 2: "extract_face_encoding L self uploaded_photo = (Inr (Some ue, m2), l2)"
    using extract_success [OF assms u]
    by (cases "extract_face_encoding L self uploaded_photo") simp
  show "(ERROR, ''Error comparing faces: '' @ str e)
          \<in> set (snd (verify_face L self staff_photo_path uploaded_photo))"
    by (simp add: verify_face_def verify_face_try_def 1 2 compare_faces_fault [OF c])
qed

theorem verify_face_fault_outcomes_witness:
  "FACE_RECOGNITION_AVAILABLE sample_libs
   \<and> fst (extract_face_encoding_try sample_libs (FaceRecognitionService None)
            (FilePath ''missing.jpg'')) = Inl (Exception ''No such file or directory'')
   \<and> fst (verify_face sample_libs (FaceRecognitionService None)
            (FilePath ''missing.jpg'') (FilePath ''alice.jpg''))
       = Inr (False, 0, ''Staff photo error: Error processing image: No such file or directory'')
   \<and> fst (extract_face_encoding_try sample_libs (FaceRecognitionService None)
            (FilePath ''alice.jpg'')) = Inr (Some [0, 0], [])
   \<and> fst (extract_face_encoding_try sample_libs (FaceRecognitionService None)
            (InMemoryUploadedFile ''garbage'')) = Inl (Exception ''cannot identify image file'')
   \<and> fst (verify_face sample_libs (FaceRecognitionService None)
            (FilePath ''alice.jpg'') (InMemoryUploadedFile ''garbage''))
       = Inr (False, 0, ''Uploaded photo error: Error processing image: cannot identify image file'')
   \<and> fst (extract_face_encoding_try sample_libs (FaceRecognitionService None)
            (FilePath ''odd.jpg'')) = Inr (Some [0, 0, 0], [])
   \<and> fst (compare_faces_try sample_libs (FaceRecognitionService None) [0, 0] [0, 0, 0])
       = Inl (Exception ''operands could not be broadcast together'')
   \<and> fst (verify_face sample_libs (FaceRecognitionService None)
            (FilePath ''alice.jpg'') (FilePath ''odd.jpg'')) = Inr (False, 0, [])
   \<and> (ERROR, ''Error comparing faces: operands could not be broadcast together'')
       \<in> set (snd (verify_face sample_libs (FaceRecognitionService None)
                     (FilePath ''alice.jpg'') (FilePath ''odd.jpg'')))"
proof -
  let ?S = "FaceRecognitionService None"
  have a: "FACE_RECOGNITION_AVAILABLE sample_libs" by (simp add: sample_libs_def)
  have m: "fst (extract_face_encoding_try sample_libs ?S (FilePath ''missing.jpg''))
             = Inl (Exception ''No such file or directory'')"
    by (simp add: run_simps)
  have al: "fst (extract_face_encoding_try sample_libs ?S (FilePath ''alice.jpg''))
             = Inr (Some [0, 0], [])"
    by (simp add: run_simps)
  have g: "fst (extract_face_encoding_try sample_libs ?S (InMemoryUploadedFile ''garbage''))
             = Inl (Exception ''cannot identify image file'')"
    by (simp add: run_simps)
  have od: "fst (extract_face_encoding_try sample_libs ?S (FilePath ''odd.jpg''))
             = Inr (Some [0, 0, 0], [])"
    by (simp add: run_simps)
  have c: "fst (compare_faces_try sample_libs ?S [0, 0] [0, 0, 0])
             = Inl (Exception ''operands could not be broadcast together'')"
    by (simp add: run_simps)
  note t = verify_face_fault_outcomes [OF a]
  from t [where self = ?S and staff_photo_path = "FilePath ''missing.jpg''"
            and uploaded_photo = "FilePath ''alice.jpg''"
            and e = "Exception ''No such file or directory''"] m
  have 1: "fst (verify_face sample_libs ?S (FilePath ''missing.jpg'') (FilePath ''alice.jpg''))
       = Inr (False, 0, ''Staff photo error: Error processing image: No such file or directory'')"
    by simp
  from t [where self = ?S and staff_photo_path = "FilePath ''alice.jpg''"
            and uploaded_photo = "InMemoryUploadedFile ''garbage''"
            and e = "Exception ''cannot identify image file''"
            and se = "[0, 0]" and ?m1.0 = "[]"] al g
  have 2: "fst (verify_face sample_libs ?S (FilePath ''alice.jpg'') (InMemoryUploadedFile ''garbage''))
       = Inr (False, 0, ''Uploaded photo error: Error processing image: cannot identify image file'')"
    by simp
  from t [where self = ?S and staff_photo_path = "FilePath ''alice.jpg''"
            and uploaded_photo = "FilePath ''odd.jpg''"
            and e = "Exception ''operands could not be broadcast together''"
            and se = "[0, 0]" and ?m1.0 = "[]" and ue = "[0, 0, 0]" and ?m2.0 = "[]"] al od c
  have 3: "fst (verify_face sample_libs ?S (FilePath ''alice.jpg'') (FilePath ''odd.jpg''))
             = Inr (False, 0, [])
       \<and> (ERROR, ''Error comparing faces: operands could not be broadcast together'')
           \<in> set (snd (verify_face sample_libs ?S (FilePath ''alice.jpg'') (FilePath ''odd.jpg'')))"
    by simp
  from a m al g od c 1 2 3 show ?thesis by simp
qed

text \<open>
  The run that refutes the claim as stated: the comparison of the two encodings raises,
  and the diagnostic text that \<open>verify_face\<close> returns is empty.
\<close>

theorem verify_face_compare_fault_counterexample:
  "fst (compare_faces_try sample_libs (FaceRecognitionService None) [0, 0] [0, 0, 0])
       = Inl (Exception ''operands could not be broadcast together'')
   \<and> verify_face sample_libs (FaceRecognitionService None)
        (FilePath ''alice.jpg'') (FilePath ''odd.jpg'')
       = (Inr (False, 0, []),
          [(ERROR, ''Error comparing faces: operands could not be broadcast together'')])"
  by (simp add: run_simps)

text \<open>
  Claim C9, as amended. Take an image that loads, with the libraries available, and in
  which the locator reports more than one face. \<open>extract_face_encoding\<close> hands all
  reported regions to the encoder and logs the warning that several faces were found.
  If the encoder returns at least one encoding, the first of them is selected, which is
  the encoding of the first reported region when the encoder answers region by region,
  and the extraction succeeds with an empty message. The ambiguity is then in the log
  only, not in the diagnostic text of the outcome: with the image as the reference,
  \<open>verify_face\<close> logs the warning and returns the result of the comparison with an
  empty diagnostic when the other image yields an encoding, and the probe-side message
  when it yields none; with the image as the probe and a reference that yields an
  encoding, \<open>verify_face\<close> logs the warning and returns the result of the comparison
  with an empty diagnostic. If the encoder returns no encoding, the extraction returns
  none with the message \<^verbatim>\<open>Could not generate face encoding\<close>; if the encoder raises,
  it returns none with \<^verbatim>\<open>Error processing image: \<close> and the text of the fault; the
  warning is logged in both cases.
\<close>

theorem multiple_faces_logged_not_diagnosed:
  assumes avail: "FACE_RECOGNITION_AVAILABLE L"
    and load: "load_image L image_file = Inr arr"
    and locs: "face_locations L arr (encoding_model self) = Inr locs"
    and many: "length locs > 1"
  shows "(face_encodings L arr locs (encoding_model self) = Inr (enc # rest) \<longrightarrow>
            extract_face_encoding L self image_file
              = (Inr (Some enc, []),
                 [(WARNING, ''Multiple faces detected ('' @ str_nat (length locs)
                            @ ''), using the first one'')])
          \<and> (WARNING, ''Multiple faces detected ('' @ str_nat (length locs)
                        @ ''), using the first one'')
               \<in> set (snd (verify_face L self image_file other))
          \<and> (fst (extract_face_encoding L self other) = Inr (Some ue, umsg) \<longrightarrow>
              fst (compare_faces L self enc ue) = Inr (m, c) \<longrightarrow>
                fst (verify_face L self image_file other) = Inr (m, c, []))
          \<and> (fst (extract_face_encoding L self other) = Inr (None, umsg) \<longrightarrow>
                fst (verify_face L self image_file other)
                  = Inr (False, 0, ''Uploaded photo error: '' @ umsg))
          \<and> (fst (extract_face_encoding L self other) = Inr (Some se, smsg) \<longrightarrow>
                (WARNING, ''Multiple faces detected ('' @ str_nat (length locs)
                          @ ''), using the first one'')
                  \<in> set (snd (verify_face L self other image_file))
              \<and> (fst (compare_faces L self se enc) = Inr (m', c') \<longrightarrow>
                    fst (verify_face L self other image_file) = Inr (m', c', []))))
       \<and> (face_encodings L arr locs (encoding_model self) = Inr (map encode locs) \<longrightarrow>
            fst (extract_face_encoding L self image_file) = Inr (Some (encode (hd locs)), []))
       \<and> (face_encodings L arr locs (encoding_model self) = Inr [] \<longrightarrow>
            extract_face_encoding L self image_file
              = (Inr (None, ''Could not generate face encoding''),
                 [(WARNING, ''Multiple faces detected ('' @ str_nat (length locs)
                            @ ''), using the first one'')]))
       \<and> (face_encodings L arr locs (encoding_model self) = Inl e \<longrightarrow>
            extract_face_encoding L self image_file
              = (Inr (None, ''Error processing image: '' @ str e),
                 [(WARNING, ''Multiple faces detected ('' @ str_nat (length locs)
                            @ ''), using the first one''),
                  (ERROR, ''Error processing image: '' @ str e)]))"
    (is "(?ok \<longrightarrow> ?A \<and> ?B \<and> ?C \<and> ?D \<and> ?E) \<and> ?F \<and> ?G \<and> ?H")
proof -
  note x = extract_multiple_faces [OF avail load locs many]
  have 1: "?ok \<longrightarrow> ?A \<and> ?B \<and> ?C \<and> ?D \<and> ?E"
  proof
    assume ok: ?ok
    have A: ?A using x ok by simp
    then have fA: "fst (extract_face_encoding L self image_file) = Inr (Some enc, [])"
      by simp
    have B: ?B using verify_face_log_staff [of L self image_file other] A by auto
    have C: ?C using verify_face_compared [OF fA] by blast
    have D: ?D using verify_face_uploaded_none [OF fA] by blast
    have E: ?E
    proof
      assume s: "fst (extract_face_encoding L self other) = Inr (Some se, smsg)"
      show "(WARNING, ''Multiple faces detected ('' @ str_nat (length locs)
                          @ ''), using the first one'')
                  \<in> set (snd (verify_face L self other image_file))
              \<and> (fst (compare_faces L self se enc) = Inr (m', c') \<longrightarrow>
                    fst (verify_face L self other image_file) = Inr (m', c', []))"
        using verify_face_log_uploaded [OF s, of image_file] A verify_face_compared [OF s fA]
        by auto
    qed
    from A B C D E show "?A \<and> ?B \<and> ?C \<and> ?D \<and> ?E" by blast
  qed
  have F: ?F
  proof
    assume r: "face_encodings L arr locs (encoding_model self) = Inr (map encode locs)"
    from many obtain l ls where "locs = l # ls" by (cases locs) auto
    with x r show "fst (extract_face_encoding L self image_file)
                     = Inr (Some (encode (hd locs)), [])"
      by simp
  qed
  have G: ?G using x by simp
  have H: ?H using x by simp
  from 1 F G H show ?thesis by blast
qed

theorem multiple_faces_logged_not_diagnosed_witness:
  "FACE_RECOGNITION_AVAILABLE sample_libs
   \<and> load_image sample_libs (FilePath ''group.jpg'')
       = Inr [((0, 10, 10, 0), [0, 0]), ((0, 30, 10, 20), [1, 0])]
   \<and> face_locations sample_libs [((0, 10, 10, 0), [0, 0]), ((0, 30, 10, 20), [1, 0])]
        (encoding_model (FaceRecognitionService None)) = Inr [(0, 10, 10, 0), (0, 30, 10, 20)]
   \<and> length [(0, 10, 10, 0), (0, 30, 10, 20) :: location] > 1
   \<and> face_encodings sample_libs [((0, 10, 10, 0), [0, 0]), ((0, 30, 10, 20), [1, 0])]
        [(0, 10, 10, 0), (0, 30, 10, 20)] (encoding_model (FaceRecognitionService None))
       = Inr [[0, 0], [1, 0]]
   \<and> extract_face_encoding sample_libs (FaceRecognitionService None) (FilePath ''group.jpg'')
       = (Inr (Some [0, 0], []),
          [(WARNING, ''Multiple faces detected (2), using the first one'')])
   \<and> (WARNING, ''Multiple faces detected (2), using the first one'')
       \<in> set (snd (verify_face sample_libs (FaceRecognitionService None)
                     (FilePath ''group.jpg'') (FilePath ''alice.jpg'')))
   \<and> fst (verify_face sample_libs (FaceRecognitionService None)
            (FilePath ''group.jpg'') (FilePath ''alice.jpg'')) = Inr (True, 1, [])
   \<and> fst (verify_face sample_libs (FaceRecognitionService None)
            (FilePath ''group.jpg'') (FilePath ''empty.jpg''))
       = Inr (False, 0, ''Uploaded photo error: No face detected in the image'')
   \<and> (WARNING, ''Multiple faces detected (2), using the first one'')
       \<in> set (snd (verify_face sample_libs (FaceRecognitionService None)
                     (FilePath ''alice.jpg'') (FilePath ''group.jpg'')))
   \<and> fst (verify_face sample_libs (FaceRecognitionService None)
            (FilePath ''alice.jpg'') (FilePath ''group.jpg'')) = Inr (True, 1, [])
   \<and> extract_face_encoding (sample_libs\<lparr>face_encodings := \<lambda>arr locs model. Inr []\<rparr>)
        (FaceRecognitionService None) (FilePath ''group.jpg'')
       = (Inr (None, ''Could not generate face encoding''),
          [(WARNING, ''Multiple faces detected (2), using the first one'')])
   \<and> extract_face_encoding
        (sample_libs\<lparr>face_encodings := \<lambda>arr locs model. Inl (Exception ''encoder fault'')\<rparr>)
        (FaceRecognitionService None) (FilePath ''group.jpg'')
       = (Inr (None, ''Error processing image: encoder fault''),
          [(WARNING, ''Multiple faces detected (2), using the first one''),
           (ERROR, ''Error processing image: encoder fault'')])"
proof -
  let ?S = "FaceRecognitionService None"
  let ?arr = "[((0, 10, 10, 0), [0, 0]), ((0, 30, 10, 20), [1, 0])] :: sample_array"
  let ?locs = "[(0, 10, 10, 0), (0, 30, 10, 20)] :: location list"
  let ?enc = "\<lambda>l. case map_of ?arr l of None \<Rightarrow> [] | Some enc \<Rightarrow> enc"
  let ?L0 = "sample_libs\<lparr>face_encodings := \<lambda>arr locs model. Inr []\<rparr>"
  let ?L1 = "sample_libs\<lparr>face_encodings := \<lambda>arr locs model. Inl (Exception ''encoder fault'')\<rparr>"
  have a: "FACE_RECOGNITION_AVAILABLE sample_libs" by (simp add: sample_libs_def)
  have b: "load_image sample_libs (FilePath ''group.jpg'') = Inr ?arr"
    by (simp add: sample_simps)
  have c: "face_locations sample_libs ?arr (encoding_model ?S) = Inr ?locs"
    by (simp add: sample_libs_def)
  have d: "length ?locs > 1" by simp
  have e: "face_encodings sample_libs ?arr ?locs (encoding_model ?S) = Inr ([0, 0] # [[1, 0]])"
    by (simp add: sample_libs_def)
  have e': "face_encodings sample_libs ?arr ?locs (encoding_model ?S) = Inr (map ?enc ?locs)"
    by (simp add: sample_libs_def)
  have al: "fst (extract_face_encoding sample_libs ?S (FilePath ''alice.jpg''))
              = Inr (Some [0, 0], [])"
    by (simp add: run_simps)
  have em: "fst (extract_face_encoding sample_libs ?S (FilePath ''empty.jpg''))
              = Inr (None, ''No face detected in the image'')"
    by (simp add: run_simps)
  have cmp: "fst (compare_faces sample_libs ?S [0, 0] [0, 0]) = Inr (True, 1)"
    by (simp add: run_simps)
  note t = multiple_faces_logged_not_diagnosed [OF a b c d]
  from t [where enc = "[0, 0]" and rest = "[[1, 0]]" and other = "FilePath ''alice.jpg''"
            and ue = "[0, 0]" and umsg = "[]" and m = True and c = 1
            and se = "[0, 0]" and smsg = "[]" and m' = True and c' = 1
            and encode = ?enc]
    e e' al cmp
  have 1: "extract_face_encoding sample_libs ?S (FilePath ''group.jpg'')
       = (Inr (Some [0, 0], []),
          [(WARNING, ''Multiple faces detected (2), using the first one'')])
   \<and> (WARNING, ''Multiple faces detected (2), using the first one'')
       \<in> set (snd (verify_face sample_libs ?S (FilePath ''group.jpg'') (FilePath ''alice.jpg'')))
   \<and> fst (verify_face sample_libs ?S (FilePath ''group.jpg'') (FilePath ''alice.jpg''))
       = Inr (True, 1, [])
   \<and> (WARNING, ''Multiple faces detected (2), using the first one'')
       \<in> set (snd (verify_face sample_libs ?S (FilePath ''alice.jpg'') (FilePath ''group.jpg'')))
   \<and> fst (verify_face sample_libs ?S (FilePath ''alice.jpg'') (FilePath ''group.jpg''))
       = Inr (True, 1, [])"
    by (simp add: str_nat.simps digit_char_def)
  from t [where enc = "[0, 0]" and rest = "[[1, 0]]" and other = "FilePath ''empty.jpg''"
            and umsg = "''No face detected in the image''"] e em
  have 2: "fst (verify_face sample_libs ?S (FilePath ''group.jpg'') (FilePath ''empty.jpg''))
       = Inr (False, 0, ''Uploaded photo error: No face detected in the image'')"
    by simp
  have a0: "FACE_RECOGNITION_AVAILABLE ?L0" by (simp add: sample_libs_def)
  have b0: "load_image ?L0 (FilePath ''group.jpg'') = Inr ?arr" by (simp add: sample_simps)
  have c0: "face_locations ?L0 ?arr (encoding_model ?S) = Inr ?locs"
    by (simp add: sample_libs_def)
  have e0: "face_encodings ?L0 ?arr ?locs (encoding_model ?S) = Inr []" by simp
  from multiple_faces_logged_not_diagnosed [OF a0 b0 c0 d] e0
  have 3: "extract_face_encoding ?L0 ?S (FilePath ''group.jpg'')
       = (Inr (None, ''Could not generate face encoding''),
          [(WARNING, ''Multiple faces detected (2), using the first one'')])"
    by (simp add: str_nat.simps digit_char_def)
  have a1: "FACE_RECOGNITION_AVAILABLE ?L1" by (simp add: sample_libs_def)
  have b1: "load_image ?L1 (FilePath ''group.jpg'') = Inr ?arr" by (simp add: sample_simps)
  have c1: "face_locations ?L1 ?arr (encoding_model ?S) = Inr ?locs"
    by (simp add: sample_libs_def)
  have e1: "face_encodings ?L1 ?arr ?locs (encoding_model ?S) = Inl (Exception ''encoder fault'')"
    by simp
  from multiple_faces_logged_not_diagnosed [OF a1 b1 c1 d,
         where e = "Exception ''encoder fault''"] e1
  have 4: "extract_face_encoding ?L1 ?S (FilePath ''group.jpg'')
       = (Inr (None, ''Error processing image: encoder fault''),
          [(WARNING, ''Multiple faces detected (2), using the first one''),
           (ERROR, ''Error processing image: encoder fault'')])"
    by (simp add: str_nat.simps digit_char_def)
  from a b c d e 1 2 3 4 show ?thesis by simp
qed

text \<open>
  The run that refutes the claim as stated: the reference picture has two faces, and
  the diagnostic text of the outcome is empty.
\<close>

theorem verify_face_multiple_faces_counterexample:
  "face_locations sample_libs [((0, 10, 10, 0), [0, 0]), ((0, 30, 10, 20), [1, 0])]
        (encoding_model (FaceRecognitionService None)) = Inr [(0, 10, 10, 0), (0, 30, 10, 20)]
   \<and> load_image sample_libs (FilePath ''group.jpg'')
       = Inr [((0, 10, 10, 0), [0, 0]), ((0, 30, 10, 20), [1, 0])]
   \<and> fst (extract_face_encoding sample_libs (FaceRecognitionService None)
            (FilePath ''group.jpg'')) = Inr (Some [0, 0], [])
   \<and> fst (verify_face sample_libs (FaceRecognitionService None)
            (FilePath ''group.jpg'') (FilePath ''alice.jpg'')) = Inr (True, 1, [])"
  by (simp add: run_simps)

text \<open>
  Claim C10. \<open>verify_face\<close> always returns a result, and a result with a non-empty
  error message has no match and confidence 0.
\<close>

theorem verify_face_error_implies_no_match:
  "(\<exists>res. fst (verify_face L self staff_photo_path uploaded_photo) = Inr res)
   \<and> (fst (verify_face L self staff_photo_path uploaded_photo)
         = Inr (is_match, confidence_score, error_message) \<longrightarrow>
      error_message \<noteq> [] \<longrightarrow> \<not> is_match \<and> confidence_score = 0)"
proof (cases "verify_face_try L self staff_photo_path uploaded_photo")
  case (Pair r logged)
  show ?thesis
  proof (cases r)
    case (Inl e)
    with Pair show ?thesis by (auto simp: verify_face_def Let_def)
  next
    case (Inr res)
    with Pair have v: "fst (verify_face L self staff_photo_path uploaded_photo) = Inr res"
      by (simp add: verify_face_def)
    have imp: "res = (is_match, confidence_score, error_message) \<Longrightarrow> error_message \<noteq> []
            \<Longrightarrow> \<not> is_match \<and> confidence_score = 0"
      using Pair Inr
      by (auto simp: verify_face_try_def split: prod.splits sum.splits option.splits)
    show ?thesis
    proof (rule conjI)
      show "\<exists>res. fst (verify_face L self staff_photo_path uploaded_photo) = Inr res"
        using v by blast
    next
      show "fst (verify_face L self staff_photo_path uploaded_photo)
                = Inr (is_match, confidence_score, error_message) \<longrightarrow>
            error_message \<noteq> [] \<longrightarrow> \<not> is_match \<and> confidence_score = 0"
        using v imp by auto
    qed
  qed
qed

theorem verify_face_error_implies_no_match_witness:
  "fst (verify_face sample_libs (FaceRecognitionService None)
          (FilePath ''alice.jpg'') (FilePath ''empty.jpg''))
     = Inr (False, 0, ''Uploaded photo error: No face detected in the image'')
   \<and> ''Uploaded photo error: No face detected in the image'' \<noteq> []"
proof -
  have "fst (verify_face sample_libs (FaceRecognitionService None)
          (FilePath ''alice.jpg'') (FilePath ''empty.jpg''))
     = Inr (False, 0, ''Uploaded photo error: No face detected in the image'')"
    by (simp add: run_simps)
  with verify_face_error_implies_no_match [of sample_libs "FaceRecognitionService None"
         "FilePath ''alice.jpg''" "FilePath ''empty.jpg''" False 0
         "''Uploaded photo error: No face detected in the image''"]
  show ?thesis by simp
qed

end
